theory Spec2Isabelle
  imports
    Complex_Main
    "HOL-Library.AList"
    "HOL-Library.Char_ord"
    "HOL-Library.List_Lexorder"
    "HOL-Library.Product_Lexorder"
begin

section \<open>Python values, dictionaries and exceptions\<close>

text \<open>
  The stores of Coal Mine take and return canaries as Python dictionaries. A dictionary
  is an association list in insertion order with distinct keys; \<open>map_of\<close> is the lookup,
  \<open>AList.update\<close> the assignment \<^verbatim>\<open>d[k] = v\<close> and \<open>AList.delete\<close> is \<^verbatim>\<open>d.pop(k, None)\<close>.
  A \<^verbatim>\<open>datetime\<close> is represented by its POSIX timestamp, the number that
  \<^verbatim>\<open>dt.timestamp()\<close> returns and \<^verbatim>\<open>datetime.fromtimestamp\<close> reads.
\<close>

datatype pyval =
    PNone
  | PBool bool
  | PInt int
  | PFloat real
  | PStr string
  | PDate real
  | PList "pyval list"
  | PTuple "pyval list"

type_synonym pydict = "(string \<times> pyval) list"

datatype error =
    KeyError
  | Exception
  | ValueError
  | TypeError
  | AttributeError
  | ResponseError
  | DuplicateKeyError

text \<open>Truth value of an object in a condition (\<^verbatim>\<open>if late:\<close>).\<close>

fun truthy :: "pyval \<Rightarrow> bool" where
  "truthy PNone = False"
| "truthy (PBool b) = b"
| "truthy (PInt n) = (n \<noteq> 0)"
| "truthy (PFloat x) = (x \<noteq> 0)"
| "truthy (PStr s) = (s \<noteq> [])"
| "truthy (PDate t) = True"
| "truthy (PList xs) = (xs \<noteq> [])"
| "truthy (PTuple xs) = (xs \<noteq> [])"

text \<open>Iteration (\<^verbatim>\<open>for x in v\<close>, \<^verbatim>\<open>f(*v)\<close>): a string yields its characters.\<close>

fun iter :: "pyval \<Rightarrow> error + pyval list" where
  "iter (PList xs) = Inr xs"
| "iter (PTuple xs) = Inr xs"
| "iter (PStr s) = Inr (map (\<lambda>c. PStr [c]) s)"
| "iter v = Inl TypeError"

text \<open>The unpacking \<^verbatim>\<open>dt, comment = x\<close>.\<close>

fun unpack2 :: "pyval \<Rightarrow> error + (pyval \<times> pyval)" where
  "unpack2 v =
     (case iter v of
        Inl e \<Rightarrow> Inl e
      | Inr xs \<Rightarrow> (case xs of [a, b] \<Rightarrow> Inr (a, b) | _ \<Rightarrow> Inl ValueError))"

text \<open>The call \<^verbatim>\<open>dt.timestamp()\<close>: only a datetime has the method.\<close>

fun timestamp :: "pyval \<Rightarrow> error + real" where
  "timestamp (PDate t) = Inr t"
| "timestamp v = Inl AttributeError"

text \<open>
  What the code takes from the interpreter and from the client library is a parameter of
  the model: \<open>py_int\<close> and \<open>py_float\<close> are \<^verbatim>\<open>int(s)\<close> and \<^verbatim>\<open>float(s)\<close> on a
  text (\<open>None\<close> when they raise \<^verbatim>\<open>ValueError\<close>), and \<open>encode\<close> is the text the
  client sends for a command argument that is not a text already.
\<close>

record py =
  py_int :: "string \<Rightarrow> int option"
  py_float :: "string \<Rightarrow> real option"
  encode :: "pyval \<Rightarrow> string"

text \<open>A command argument or a format field: a text goes as it is.\<close>

definition arg :: "py \<Rightarrow> pyval \<Rightarrow> string" where
  "arg P v = (case v of PStr s \<Rightarrow> s | _ \<Rightarrow> encode P v)"

section \<open>The key-value backend (redis\_store.py)\<close>

subsection \<open>The server: one keyspace\<close>

text \<open>
  Every structure of the store is a key of one Redis keyspace: the hash of a canary under
  \<^verbatim>\<open>ns:id\<close>, its emails under \<^verbatim>\<open>ns:id:emails\<close>, its history under \<^verbatim>\<open>ns:id:history\<close>,
  and the six keys of \<^verbatim>\<open>RedisStore.__init__\<close> under \<^verbatim>\<open>ns:slugs\<close>, \<^verbatim>\<open>ns:active\<close> and so
  on. The keyspace maps the name of a key to the value it holds, so an identifier such as
  \<^verbatim>\<open>slugs\<close> names the key of the slug hash, as it does on the server. A value is a hash, a
  list, a set (a list without repetition whose order carries no meaning) or a sorted set
  (an association list from member to score). A key whose value has no element left does
  not exist. A command on a key that holds a value of another type is refused with
  \<^verbatim>\<open>WRONGTYPE\<close>, which the client raises as \<^verbatim>\<open>ResponseError\<close>.
\<close>

datatype rval =
    Hash "(string \<times> string) list"
  | RList "string list"
  | RSet "string list"
  | ZSet "(string \<times> real) list"

type_synonym keyspace = "(string \<times> rval) list"

fun no_element :: "rval \<Rightarrow> bool" where
  "no_element (Hash h) = (h = [])"
| "no_element (RList xs) = (xs = [])"
| "no_element (RSet s) = (s = [])"
| "no_element (ZSet z) = (z = [])"

definition put :: "string \<Rightarrow> rval \<Rightarrow> keyspace \<Rightarrow> keyspace" where
  "put k v db = (if no_element v then AList.delete k db else AList.update k v db)"

text \<open>Commands that read.\<close>

definition exists_k :: "keyspace \<Rightarrow> string \<Rightarrow> bool" where
  "exists_k db k = (map_of db k \<noteq> None)"

definition hgetall :: "keyspace \<Rightarrow> string \<Rightarrow> error + (string \<times> string) list" where
  "hgetall db k =
     (case map_of db k of
        None \<Rightarrow> Inr []
      | Some v \<Rightarrow> (case v of Hash h \<Rightarrow> Inr h | _ \<Rightarrow> Inl ResponseError))"

definition hget :: "keyspace \<Rightarrow> string \<Rightarrow> string \<Rightarrow> error + string option" where
  "hget db k f = (case hgetall db k of Inl e \<Rightarrow> Inl e | Inr h \<Rightarrow> Inr (map_of h f))"

definition hmget :: "keyspace \<Rightarrow> string \<Rightarrow> string list \<Rightarrow> error + string option list" where
  "hmget db k fs = (case hgetall db k of Inl e \<Rightarrow> Inl e | Inr h \<Rightarrow> Inr (map (map_of h) fs))"

definition hexists :: "keyspace \<Rightarrow> string \<Rightarrow> string \<Rightarrow> error + bool" where
  "hexists db k f = (case hget db k f of Inl e \<Rightarrow> Inl e | Inr v \<Rightarrow> Inr (v \<noteq> None))"

definition lrange :: "keyspace \<Rightarrow> string \<Rightarrow> error + string list" where
  "lrange db k =
     (case map_of db k of
        None \<Rightarrow> Inr []
      | Some v \<Rightarrow> (case v of RList xs \<Rightarrow> Inr xs | _ \<Rightarrow> Inl ResponseError))"

definition smembers :: "keyspace \<Rightarrow> string \<Rightarrow> error + string list" where
  "smembers db k =
     (case map_of db k of
        None \<Rightarrow> Inr []
      | Some v \<Rightarrow> (case v of RSet s \<Rightarrow> Inr s | _ \<Rightarrow> Inl ResponseError))"

fun all_members :: "keyspace \<Rightarrow> string list \<Rightarrow> error + string list list" where
  "all_members db [] = Inr []"
| "all_members db (k # ks) =
     (case smembers db k of
        Inl e \<Rightarrow> Inl e
      | Inr s \<Rightarrow> (case all_members db ks of Inl e \<Rightarrow> Inl e | Inr ss \<Rightarrow> Inr (s # ss)))"

definition sunion :: "keyspace \<Rightarrow> string list \<Rightarrow> error + string list" where
  "sunion db ks =
     (case all_members db ks of Inl e \<Rightarrow> Inl e | Inr ss \<Rightarrow> Inr (remdups (concat ss)))"

text \<open>The members of a sorted set with their scores, in ascending order of score.\<close>

definition zrange :: "keyspace \<Rightarrow> string \<Rightarrow> error + (string \<times> real) list" where
  "zrange db k =
     (case map_of db k of
        None \<Rightarrow> Inr []
      | Some v \<Rightarrow>
          (case v of ZSet z \<Rightarrow> Inr (sort_key (\<lambda>(m, s). (s, m)) z) | _ \<Rightarrow> Inl ResponseError))"

definition zscore :: "keyspace \<Rightarrow> string \<Rightarrow> string \<Rightarrow> error + real option" where
  "zscore db k m =
     (case map_of db k of
        None \<Rightarrow> Inr None
      | Some v \<Rightarrow> (case v of ZSet z \<Rightarrow> Inr (map_of z m) | _ \<Rightarrow> Inl ResponseError))"

text \<open>
  Commands that write. After \<^verbatim>\<open>pipe.multi()\<close> the pipeline queues them; \<open>execute\<close> runs
  the queue in its order. A command the server refuses changes nothing, the commands after
  it still run, and the client raises the first refusal once all have run.
\<close>

datatype command =
    HSET string string string
  | HMSET string "(string \<times> string) list"
  | HDEL string string
  | DEL "string list"
  | RPUSH string "string list"
  | ZADD string real string
  | ZREM string string
  | SADD string string
  | SREM string string

definition on_hash ::
  "string \<Rightarrow> ((string \<times> string) list \<Rightarrow> (string \<times> string) list) \<Rightarrow> keyspace \<Rightarrow> error + keyspace" where
  "on_hash k f db =
     (case map_of db k of
        None \<Rightarrow> Inr (put k (Hash (f [])) db)
      | Some v \<Rightarrow> (case v of Hash h \<Rightarrow> Inr (put k (Hash (f h)) db) | _ \<Rightarrow> Inl ResponseError))"

definition on_list ::
  "string \<Rightarrow> (string list \<Rightarrow> string list) \<Rightarrow> keyspace \<Rightarrow> error + keyspace" where
  "on_list k f db =
     (case map_of db k of
        None \<Rightarrow> Inr (put k (RList (f [])) db)
      | Some v \<Rightarrow> (case v of RList xs \<Rightarrow> Inr (put k (RList (f xs)) db) | _ \<Rightarrow> Inl ResponseError))"

definition on_set ::
  "string \<Rightarrow> (string list \<Rightarrow> string list) \<Rightarrow> keyspace \<Rightarrow> error + keyspace" where
  "on_set k f db =
     (case map_of db k of
        None \<Rightarrow> Inr (put k (RSet (f [])) db)
      | Some v \<Rightarrow> (case v of RSet s \<Rightarrow> Inr (put k (RSet (f s)) db) | _ \<Rightarrow> Inl ResponseError))"

definition on_zset ::
  "string \<Rightarrow> ((string \<times> real) list \<Rightarrow> (string \<times> real) list) \<Rightarrow> keyspace \<Rightarrow> error + keyspace" where
  "on_zset k f db =
     (case map_of db k of
        None \<Rightarrow> Inr (put k (ZSet (f [])) db)
      | Some v \<Rightarrow> (case v of ZSet z \<Rightarrow> Inr (put k (ZSet (f z)) db) | _ \<Rightarrow> Inl ResponseError))"

fun run :: "command \<Rightarrow> keyspace \<Rightarrow> error + keyspace" where
  "run (HSET k f v) db = on_hash k (AList.update f v) db"
| "run (HMSET k fvs) db = on_hash k (fold (\<lambda>(f, v). AList.update f v) fvs) db"
| "run (HDEL k f) db = on_hash k (AList.delete f) db"
| "run (DEL ks) db = Inr (fold AList.delete ks db)"
| "run (RPUSH k vs) db = on_list k (\<lambda>xs. xs @ vs) db"
| "run (ZADD k s m) db = on_zset k (AList.update m s) db"
| "run (ZREM k m) db = on_zset k (AList.delete m) db"
| "run (SADD k m) db = on_set k (List.insert m) db"
| "run (SREM k m) db = on_set k (removeAll m) db"

fun execute :: "command list \<Rightarrow> keyspace \<Rightarrow> keyspace \<times> error option" where
  "execute [] db = (db, None)"
| "execute (c # cs) db =
     (case run c db of
        Inl e \<Rightarrow> (case execute cs db of (db', e') \<Rightarrow> (db', Some e))
      | Inr db1 \<Rightarrow> execute cs db1)"

subsection \<open>The store and the names of its keys\<close>

text \<open>
  \<^verbatim>\<open>RedisStore\<close> holds its namespace and the client; \<open>db\<close> is the keyspace of the server
  the client talks to. \<open>slugs\<close> to \<open>deadlines\<close> are the attributes of \<^verbatim>\<open>__init__\<close>, the
  names of keys; \<open>key\<close>, \<open>emails_k\<close> and \<open>history_k\<close> are the attributes of
  \<^verbatim>\<open>RedisCanary.__init__\<close>. A transaction runs alone: no watched key changes under it.
\<close>

record redis =
  namespace :: string
  db :: keyspace

definition store_key :: "redis \<Rightarrow> string \<Rightarrow> string" where
  "store_key st k = namespace st @ '':'' @ k"

definition slugs :: "redis \<Rightarrow> string" where
  "slugs st = store_key st ''slugs''"

definition active :: "redis \<Rightarrow> string" where
  "active st = store_key st ''active''"

definition paused :: "redis \<Rightarrow> string" where
  "paused st = store_key st ''paused''"

definition late :: "redis \<Rightarrow> string" where
  "late st = store_key st ''late''"

definition ontime :: "redis \<Rightarrow> string" where
  "ontime st = store_key st ''ontime''"

definition deadlines :: "redis \<Rightarrow> string" where
  "deadlines st = store_key st ''deadlines''"

definition key :: "redis \<Rightarrow> string \<Rightarrow> string" where
  "key st i = namespace st @ '':'' @ i"

definition emails_k :: "redis \<Rightarrow> string \<Rightarrow> string" where
  "emails_k st i = key st i @ '':emails''"

definition history_k :: "redis \<Rightarrow> string \<Rightarrow> string" where
  "history_k st i = key st i @ '':history''"

definition empty_store :: redis where
  "empty_store = \<lparr>namespace = ''cm'', db = []\<rparr>"

subsection \<open>RedisCanary\<close>

text \<open>
  \<^verbatim>\<open>load\<close>. The function given to \<^verbatim>\<open>transaction\<close> raises \<^verbatim>\<open>KeyError\<close> when the key
  does not exist, and otherwise queues the reads of the hash, the emails, the history in
  score order and the score of the canary in \<^verbatim>\<open>deadlines\<close>; the first read the server
  refuses is raised. \<open>flag\<close> is the conversion \<^verbatim>\<open>bool(int(paused))\<close> of a field that is
  present.
\<close>

definition flag :: "py \<Rightarrow> string option \<Rightarrow> error + bool option" where
  "flag P v =
     (case v of
        None \<Rightarrow> Inr None
      | Some s \<Rightarrow> (case py_int P s of None \<Rightarrow> Inl ValueError | Some n \<Rightarrow> Inr (Some (n \<noteq> 0))))"

definition periodicity :: "py \<Rightarrow> string \<Rightarrow> pyval" where
  "periodicity P s =
     (case py_int P s of
        Some n \<Rightarrow> PInt n
      | None \<Rightarrow> (case py_float P s of Some x \<Rightarrow> PFloat x | None \<Rightarrow> PStr s))"

definition load_record ::
  "py \<Rightarrow> string \<Rightarrow> (string \<times> string) list \<Rightarrow> string list \<Rightarrow> (string \<times> real) list \<Rightarrow> real option
     \<Rightarrow> error + pydict" where
  "load_record P i h em hs deadline =
     (let data = map (\<lambda>(k, v). (k, PStr v)) h;
          data = AList.update ''emails'' (PList (map PStr em)) data;
          data = AList.update ''history''
                   (PList (map (\<lambda>(member, score). PTuple [PDate score, PStr member]) hs)) data
      in case flag P (map_of h ''paused'') of
           Inl e \<Rightarrow> Inl e
         | Inr paused_v \<Rightarrow>
             let data = AList.update ''paused'' (PBool (paused_v = Some True)) data
             in case flag P (map_of h ''late'') of
                  Inl e \<Rightarrow> Inl e
                | Inr late_v \<Rightarrow>
                    let data = AList.update ''late'' (PBool (late_v = Some True)) data;
                        data = (case map_of h ''periodicity'' of
                                  None \<Rightarrow> data
                                | Some s \<Rightarrow> AList.update ''periodicity'' (periodicity P s) data)
                    in if paused_v \<noteq> Some True
                       then (case deadline of
                               None \<Rightarrow> Inl TypeError
                             | Some t \<Rightarrow>
                                 Inr (AList.update ''id'' (PStr i)
                                        (AList.update ''deadline'' (PDate t) data)))
                       else Inr (AList.update ''id'' (PStr i) data))"

definition RedisCanary_load :: "py \<Rightarrow> redis \<Rightarrow> string \<Rightarrow> error + pydict" where
  "RedisCanary_load P st i =
     (if \<not> exists_k (db st) (key st i) then Inl KeyError
      else case hgetall (db st) (key st i) of
             Inl e \<Rightarrow> Inl e
           | Inr h \<Rightarrow>
               (case lrange (db st) (emails_k st i) of
                  Inl e \<Rightarrow> Inl e
                | Inr em \<Rightarrow>
                    (case zrange (db st) (history_k st i) of
                       Inl e \<Rightarrow> Inl e
                     | Inr hs \<Rightarrow>
                         (case zscore (db st) (deadlines st) i of
                            Inl e \<Rightarrow> Inl e
                          | Inr deadline \<Rightarrow> load_record P i h em hs deadline))))"

text \<open>
  \<^verbatim>\<open>load_brief\<close>. \<^verbatim>\<open>hmget\<close> answers with one entry for each field asked, \<^verbatim>\<open>None\<close> for
  a field or a hash that is not there.
\<close>

definition field :: "string option \<Rightarrow> pyval" where
  "field v = (case v of None \<Rightarrow> PNone | Some s \<Rightarrow> PStr s)"

definition RedisCanary_load_brief :: "redis \<Rightarrow> string \<Rightarrow> error + pydict" where
  "RedisCanary_load_brief st i =
     (case hmget (db st) (key st i) [''name'', ''slug''] of
        Inl e \<Rightarrow> Inl e
      | Inr data \<Rightarrow>
          if data = [] then Inl KeyError
          else Inr [(''name'', field (data ! 0)), (''id'', PStr i), (''slug'', field (data ! 1))])"

text \<open>
  \<^verbatim>\<open>save\<close>. The checks before \<^verbatim>\<open>pipe.multi()\<close> read the server at once; the commands
  after it are queued. An exception raised while the function runs discards the queue, so
  the store is as it was. In the loop over the items, \<^verbatim>\<open>pipe.delete(self.key, key)\<close> is the
  command on the key of the canary and on the key named \<^verbatim>\<open>emails\<close> or \<^verbatim>\<open>history\<close>.
\<close>

fun items_loop ::
  "redis \<Rightarrow> string \<Rightarrow> pydict \<Rightarrow> command list \<times> pydict \<Rightarrow> command list \<times> pydict" where
  "items_loop st i [] (q, data) = (q, data)"
| "items_loop st i ((k, v) # kvs) (q, data) =
     items_loop st i kvs
       (if v = PNone then
          (if k \<notin> {''emails'', ''history'', ''deadline''}
           then (q @ [HDEL (key st i) k], data)
           else if k \<in> {''emails'', ''history''}
           then (q @ [DEL [key st i, k]], data)
           else (q @ [ZREM (deadlines st) i], data))
        else (q, AList.update k v data))"

definition save_emails :: "py \<Rightarrow> redis \<Rightarrow> string \<Rightarrow> pydict \<Rightarrow> error + command list" where
  "save_emails P st i data =
     (case map_of data ''emails'' of
        None \<Rightarrow> Inr []
      | Some v \<Rightarrow>
          if truthy v
          then (case iter v of
                  Inl e \<Rightarrow> Inl e
                | Inr xs \<Rightarrow> Inr [DEL [emails_k st i], RPUSH (emails_k st i) (map (arg P) xs)])
          else Inr [])"

fun zadd_all :: "py \<Rightarrow> string \<Rightarrow> pyval list \<Rightarrow> error + command list" where
  "zadd_all P k [] = Inr []"
| "zadd_all P k (x # xs) =
     (case unpack2 x of
        Inl e \<Rightarrow> Inl e
      | Inr (dt, comment) \<Rightarrow>
          (case timestamp dt of
             Inl e \<Rightarrow> Inl e
           | Inr t \<Rightarrow>
               (case zadd_all P k xs of
                  Inl e \<Rightarrow> Inl e
                | Inr q \<Rightarrow> Inr (ZADD k t (arg P comment) # q))))"

definition save_history :: "py \<Rightarrow> redis \<Rightarrow> string \<Rightarrow> pydict \<Rightarrow> error + command list" where
  "save_history P st i data =
     (case map_of data ''history'' of
        None \<Rightarrow> Inr []
      | Some v \<Rightarrow>
          (case iter v of
             Inl e \<Rightarrow> Inl e
           | Inr xs \<Rightarrow>
               (case zadd_all P (history_k st i) xs of
                  Inl e \<Rightarrow> Inl e
                | Inr q \<Rightarrow> Inr (DEL [history_k st i] # q))))"

definition save_late :: "redis \<Rightarrow> string \<Rightarrow> pyval option \<Rightarrow> pydict \<Rightarrow> command list \<times> pydict" where
  "save_late st i late_v data =
     (case late_v of
        None \<Rightarrow> ([], data)
      | Some v \<Rightarrow>
          if truthy v
          then ([SADD (late st) i], AList.update ''late'' (PInt 1) data)
          else ([SADD (ontime st) i], AList.update ''late'' (PInt 0) data))"

definition save_paused ::
  "redis \<Rightarrow> string \<Rightarrow> pyval option \<Rightarrow> pyval option \<Rightarrow> pydict \<Rightarrow> error + command list \<times> pydict"
where
  "save_paused st i paused_v deadline data =
     (case paused_v of
        None \<Rightarrow> Inr ([], data)
      | Some v \<Rightarrow>
          if truthy v
          then Inr ([SADD (paused st) i, ZREM (deadlines st) i],
                    AList.update ''paused'' (PInt 1) data)
          else (case deadline of
                  None \<Rightarrow> Inl AttributeError
                | Some d \<Rightarrow>
                    (case timestamp d of
                       Inl e \<Rightarrow> Inl e
                     | Inr t \<Rightarrow>
                         Inr ([SADD (active st) i, ZADD (deadlines st) t i],
                              AList.update ''paused'' (PInt 0) data))))"

definition save_multi :: "py \<Rightarrow> redis \<Rightarrow> string \<Rightarrow> pydict \<Rightarrow> error + command list" where
  "save_multi P st i canary =
     (let q_slug = (case map_of canary ''slug'' of
                      None \<Rightarrow> []
                    | Some v \<Rightarrow> [HSET (slugs st) (arg P v) i]);
          (q_items, data) = items_loop st i canary (q_slug, []);
          data = AList.delete ''id'' data;
          paused_v = map_of data ''paused'';
          late_v = map_of data ''late'';
          deadline = map_of data ''deadline'';
          data = AList.delete ''deadline'' data
      in case save_emails P st i data of
           Inl e \<Rightarrow> Inl e
         | Inr q_emails \<Rightarrow>
             let data = AList.delete ''emails'' data
             in case save_history P st i data of
                  Inl e \<Rightarrow> Inl e
                | Inr q_history \<Rightarrow>
                    let data = AList.delete ''history'' data;
                        (q_late, data) = save_late st i late_v data
                    in case save_paused st i paused_v deadline data of
                         Inl e \<Rightarrow> Inl e
                       | Inr (q_paused, data) \<Rightarrow>
                           Inr (q_items @ q_emails @ q_history @ q_late @ q_paused
                                @ (if data \<noteq> []
                                   then [HMSET (key st i) (map (\<lambda>(k, v). (k, arg P v)) data)]
                                   else [])))"

definition RedisCanary_save ::
  "py \<Rightarrow> redis \<Rightarrow> string \<Rightarrow> pydict \<Rightarrow> bool \<Rightarrow> redis \<times> error option" where
  "RedisCanary_save P st i canary create =
     (if exists_k (db st) (key st i) \<and> create then (st, Some Exception)
      else if \<not> exists_k (db st) (key st i) \<and> \<not> create then (st, Some KeyError)
      else case (if create
                 then (case map_of canary ''slug'' of
                         None \<Rightarrow> Inl KeyError
                       | Some v \<Rightarrow> hexists (db st) (slugs st) (arg P v))
                 else Inr False) of
             Inl e \<Rightarrow> (st, Some e)
           | Inr bound \<Rightarrow>
               if bound then (st, Some Exception)
               else (case save_multi P st i canary of
                       Inl e \<Rightarrow> (st, Some e)
                     | Inr q \<Rightarrow>
                         (case execute q (db st) of (db', e) \<Rightarrow> (st\<lparr>db := db'\<rparr>, e))))"

definition RedisCanary_create :: "py \<Rightarrow> redis \<Rightarrow> string \<Rightarrow> pydict \<Rightarrow> redis \<times> error option" where
  "RedisCanary_create P st i canary = RedisCanary_save P st i canary True"

text \<open>
  \<^verbatim>\<open>delete\<close>. The slug is read from the hash without a check that the key exists; a
  missing slug is \<^verbatim>\<open>None\<close>, which the client sends as the text it encodes \<^verbatim>\<open>None\<close> to.
  The function has no \<^verbatim>\<open>raise\<close> of its own.
\<close>

definition RedisCanary_delete :: "py \<Rightarrow> redis \<Rightarrow> string \<Rightarrow> redis \<times> error option" where
  "RedisCanary_delete P st i =
     (case hget (db st) (key st i) ''slug'' of
        Inl e \<Rightarrow> (st, Some e)
      | Inr slug \<Rightarrow>
          (case execute
                  [SREM (active st) i, SREM (paused st) i, SREM (late st) i, SREM (ontime st) i,
                   ZREM (deadlines st) i,
                   HDEL (slugs st) (arg P (field slug)),
                   DEL [history_k st i],
                   DEL [emails_k st i],
                   DEL [key st i]]
                  (db st) of
             (db', e) \<Rightarrow> (st\<lparr>db := db'\<rparr>, e)))"

subsection \<open>RedisStore\<close>

text \<open>
  The identifier of a canary is the text of \<^verbatim>\<open>canary['id']\<close>, which the key and every
  command argument are formatted from.
\<close>

definition RedisStore_create :: "py \<Rightarrow> redis \<Rightarrow> pydict \<Rightarrow> redis \<times> error option" where
  "RedisStore_create P st canary =
     (case map_of canary ''id'' of
        None \<Rightarrow> (st, Some KeyError)
      | Some v \<Rightarrow> RedisCanary_create P st (arg P v) canary)"

definition RedisStore_update ::
  "py \<Rightarrow> redis \<Rightarrow> string \<Rightarrow> pydict \<Rightarrow> redis \<times> error option" where
  "RedisStore_update P st identifier updates = RedisCanary_save P st identifier updates False"

definition RedisStore_delete :: "py \<Rightarrow> redis \<Rightarrow> string \<Rightarrow> redis \<times> error option" where
  "RedisStore_delete P st identifier = RedisCanary_delete P st identifier"

definition RedisStore_get :: "py \<Rightarrow> redis \<Rightarrow> string \<Rightarrow> error + pydict" where
  "RedisStore_get P st identifier = RedisCanary_load P st identifier"

text \<open>
  \<^verbatim>\<open>list\<close> is a generator: it yields records one at a time, and an exception raised
  while the union is read or a member is loaded or matched ends it after the records
  already yielded. Its result is the sequence yielded and the exception that ended it, if
  any. The compiled pattern is given by its \<^verbatim>\<open>match\<close> method; matching anything but a
  text raises \<^verbatim>\<open>TypeError\<close>, and \<^verbatim>\<open>res['name']\<close> on a record without the key raises
  \<^verbatim>\<open>KeyError\<close>. The order in which the members of the union are visited is that of the
  list modelling it; the code fixes none.
\<close>

definition match_field :: "(string \<Rightarrow> bool) \<Rightarrow> pydict \<Rightarrow> string \<Rightarrow> error + bool" where
  "match_field m res f =
     (case map_of res f of
        None \<Rightarrow> Inl KeyError
      | Some v \<Rightarrow> (case v of PStr s \<Rightarrow> Inr (m s) | _ \<Rightarrow> Inl TypeError))"

definition skipped :: "(string \<Rightarrow> bool) option \<Rightarrow> pydict \<Rightarrow> error + bool" where
  "skipped search res =
     (case search of
        None \<Rightarrow> Inr False
      | Some m \<Rightarrow>
          (case match_field m res ''name'' of
             Inl e \<Rightarrow> Inl e
           | Inr b1 \<Rightarrow>
               if b1 then Inr False
               else (case match_field m res ''slug'' of
                       Inl e \<Rightarrow> Inl e
                     | Inr b2 \<Rightarrow>
                         if b2 then Inr False
                         else (case match_field m res ''id'' of
                                 Inl e \<Rightarrow> Inl e
                               | Inr b3 \<Rightarrow> Inr (\<not> b3)))))"

fun list_loop ::
  "py \<Rightarrow> redis \<Rightarrow> bool \<Rightarrow> (string \<Rightarrow> bool) option \<Rightarrow> string list \<Rightarrow> pydict list \<times> error option"
where
  "list_loop P st verbose search [] = ([], None)"
| "list_loop P st verbose search (i # ids) =
     (case (if verbose then RedisCanary_load P st i else RedisCanary_load_brief st i) of
        Inl e \<Rightarrow> ([], Some e)
      | Inr res \<Rightarrow>
          (case skipped search res of
             Inl e \<Rightarrow> ([], Some e)
           | Inr skip \<Rightarrow>
               if skip then list_loop P st verbose search ids
               else (case list_loop P st verbose search ids of
                       (rs, e) \<Rightarrow>
                         ((if \<not> verbose then AList.delete ''slug'' res else res) # rs, e))))"

definition list_sets :: "redis \<Rightarrow> bool option \<Rightarrow> bool option \<Rightarrow> string list" where
  "list_sets st paused_f late_f =
     (case paused_f of
        None \<Rightarrow> [paused st, active st]
      | Some b \<Rightarrow> if b then [paused st] else [active st])
     @ (case late_f of
          None \<Rightarrow> [late st, ontime st]
        | Some b \<Rightarrow> if b then [late st] else [ontime st])"

definition RedisStore_list ::
  "py \<Rightarrow> redis \<Rightarrow> bool \<Rightarrow> bool option \<Rightarrow> bool option \<Rightarrow> (string \<Rightarrow> bool) option
     \<Rightarrow> pydict list \<times> error option"
where
  "RedisStore_list P st verbose paused_f late_f search =
     (case sunion (db st) (list_sets st paused_f late_f) of
        Inl e \<Rightarrow> ([], Some e)
      | Inr ids \<Rightarrow> list_loop P st verbose search ids)"

text \<open>
  \<^verbatim>\<open>upcoming_deadlines\<close> loads every member of \<^verbatim>\<open>deadlines\<close>, in the order of
  \<^verbatim>\<open>zrangebyscore\<close> over all scores.
\<close>

fun load_all :: "py \<Rightarrow> redis \<Rightarrow> string list \<Rightarrow> pydict list \<times> error option" where
  "load_all P st [] = ([], None)"
| "load_all P st (i # ids) =
     (case RedisCanary_load P st i of
        Inl e \<Rightarrow> ([], Some e)
      | Inr res \<Rightarrow> (case load_all P st ids of (rs, e) \<Rightarrow> (res # rs, e)))"

definition RedisStore_upcoming_deadlines :: "py \<Rightarrow> redis \<Rightarrow> pydict list \<times> error option" where
  "RedisStore_upcoming_deadlines P st =
     (case zrange (db st) (deadlines st) of
        Inl e \<Rightarrow> ([], Some e)
      | Inr z \<Rightarrow> load_all P st (map fst z))"

definition RedisStore_find_identifier :: "redis \<Rightarrow> string \<Rightarrow> error + string" where
  "RedisStore_find_identifier st slug =
     (case hget (db st) (slugs st) slug of
        Inl e \<Rightarrow> Inl e
      | Inr v \<Rightarrow> (case v of None \<Rightarrow> Inl KeyError | Some id_ \<Rightarrow> Inr id_))"

text \<open>
  A finite table of the interpreter and of the client, for evaluating the store on
  concrete canaries: the integer and float readings of the texts \<^verbatim>\<open>0\<close>, \<^verbatim>\<open>1\<close>,
  \<^verbatim>\<open>3600\<close> and \<^verbatim>\<open>1.5\<close> and of texts that are no number, and the encoding of 0, of
  1, of 3600 and of \<^verbatim>\<open>None\<close>. The evaluations below read no other entry.
\<close>

definition py_table :: py where
  "py_table =
     \<lparr>py_int = (\<lambda>s. if s = ''0'' then Some 0 else if s = ''1'' then Some 1
                    else if s = ''3600'' then Some 3600 else None),
      py_float = (\<lambda>s. if s = ''0'' then Some 0 else if s = ''1'' then Some 1
                      else if s = ''3600'' then Some 3600
                      else if s = ''1.5'' then Some (3 / 2) else None),
      encode = (\<lambda>v. case v of
                       PInt n \<Rightarrow> (if n = 0 then ''0'' else if n = 1 then ''1''
                                  else if n = 3600 then ''3600'' else ''int'')
                     | PNone \<Rightarrow> ''None''
                     | _ \<Rightarrow> ''object'')\<rparr>"

section \<open>The document backend (mongo\_store.py)\<close>

text \<open>
  The collection is the list of its documents in natural order. The server key \<^verbatim>\<open>_id\<close>
  is left out: \<^verbatim>\<open>create\<close> draws a fresh one and no operation returns it. A condition
  \<^verbatim>\<open>{f: v}\<close> selects the documents whose field \<^verbatim>\<open>f\<close> is \<^verbatim>\<open>v\<close>, a regular expression
  selects those whose field is a text it finds a match in (the expression is given by that
  test), and the unique index on \<^verbatim>\<open>slug\<close> refuses a write after which two documents would
  have the same slug, a missing slug counting as null. Every call is taken at an attempt
  that reaches the server: an attempt ended by \<^verbatim>\<open>AutoReconnect\<close> is repeated by the
  \<^verbatim>\<open>while True\<close> loops and is assumed to leave the collection as it was.
\<close>

type_synonym collection = "pydict list"

definition has_id :: "string \<Rightarrow> pydict \<Rightarrow> bool" where
  "has_id identifier d = (map_of d ''id'' = Some (PStr identifier))"

definition slug_key :: "pydict \<Rightarrow> pyval" where
  "slug_key d = (case map_of d ''slug'' of None \<Rightarrow> PNone | Some v \<Rightarrow> v)"

definition MongoStore_create :: "collection \<Rightarrow> pydict \<Rightarrow> error + collection" where
  "MongoStore_create coll canary =
     (if \<exists>d \<in> set coll. slug_key d = slug_key canary then Inl DuplicateKeyError
      else Inr (coll @ [canary]))"





definition MongoStore_get :: "collection \<Rightarrow> string \<Rightarrow> error + pydict" where
  "MongoStore_get coll identifier =
     (case List.find (has_id identifier) coll of
        None \<Rightarrow> Inl KeyError
      | Some canary \<Rightarrow> if canary = [] then Inl KeyError else Inr canary)"

text \<open>
  \<^verbatim>\<open>list\<close>: the conditions of \<^verbatim>\<open>spec\<close>, the sort on \<^verbatim>\<open>order_by\<close> and the projection.
  The order in which the server compares the values of a field, a missing one included, is
  the parameter \<open>rank\<close>.
\<close>

definition regex_field :: "(string \<Rightarrow> bool) \<Rightarrow> pydict \<Rightarrow> string \<Rightarrow> bool" where
  "regex_field m d f =
     (case map_of d f of None \<Rightarrow> False | Some v \<Rightarrow> (case v of PStr s \<Rightarrow> m s | _ \<Rightarrow> False))"

definition selects ::
  "bool option \<Rightarrow> bool option \<Rightarrow> (string \<Rightarrow> bool) option \<Rightarrow> pydict \<Rightarrow> bool" where
  "selects paused_f late_f search d =
     ((case paused_f of None \<Rightarrow> True | Some b \<Rightarrow> map_of d ''paused'' = Some (PBool b))
      \<and> (case late_f of None \<Rightarrow> True | Some b \<Rightarrow> map_of d ''late'' = Some (PBool b))
      \<and> (case search of
            None \<Rightarrow> True
          | Some m \<Rightarrow> regex_field m d ''name'' \<or> regex_field m d ''slug'' \<or> regex_field m d ''id''))"

definition projection :: "bool \<Rightarrow> pydict \<Rightarrow> pydict" where
  "projection verbose d =
     (if verbose then d else filter (\<lambda>(k, v). k \<in> {''name'', ''id''}) d)"

definition MongoStore_list ::
  "(pyval option \<Rightarrow> 'k::linorder) \<Rightarrow> collection \<Rightarrow> bool \<Rightarrow> bool option \<Rightarrow> bool option
     \<Rightarrow> (string \<Rightarrow> bool) option \<Rightarrow> string option \<Rightarrow> pydict list"
where
  "MongoStore_list rank coll verbose paused_f late_f search order_by =
     (let found = filter (selects paused_f late_f search) coll;
          sorted_l = (case order_by of
                        None \<Rightarrow> found
                      | Some f \<Rightarrow> sort_key (\<lambda>d. rank (map_of d f)) found)
      in map (projection verbose) sorted_l)"

definition MongoStore_upcoming_deadlines ::
  "(pyval option \<Rightarrow> 'k::linorder) \<Rightarrow> collection \<Rightarrow> pydict list" where
  "MongoStore_upcoming_deadlines rank coll =
     MongoStore_list rank coll True (Some False) (Some False) None (Some ''deadline'')"

definition MongoStore_delete :: "collection \<Rightarrow> string \<Rightarrow> error + collection" where
  "MongoStore_delete coll identifier =
     (let n = length (filter (has_id identifier) coll)
      in if n = 0 then Inl KeyError
         else Inr (filter (\<lambda>d. \<not> has_id identifier d) coll))"

definition MongoStore_find_identifier :: "collection \<Rightarrow> string \<Rightarrow> error + pyval" where
  "MongoStore_find_identifier coll slug =
     (case List.find (\<lambda>d. map_of d ''slug'' = Some (PStr slug)) coll of
        None \<Rightarrow> Inl KeyError
      | Some result \<Rightarrow> (case map_of result ''id'' of None \<Rightarrow> Inl KeyError | Some v \<Rightarrow> Inr v))"


section \<open>Concrete canaries and stores\<close>

text \<open>
  The canary of the scenario in the specification, created in an empty store of namespace
  \<^verbatim>\<open>cm\<close>, and the stores reached from it by the updates and deletions examined below.
\<close>

definition canary_c1 :: pydict where
  "canary_c1 =
     [(''id'', PStr ''c1''), (''name'', PStr ''DB Backup''), (''slug'', PStr ''db-backup''),
      (''periodicity'', PInt 3600), (''paused'', PBool False), (''late'', PBool False),
      (''deadline'', PDate 5)]"

definition store_c1 :: redis where
  "store_c1 =
     \<lparr>namespace = ''cm'',
      db = [(''cm:slugs'', Hash [(''db-backup'', ''c1'')]),
            (''cm:ontime'', RSet [''c1'']),
            (''cm:active'', RSet [''c1'']),
            (''cm:deadlines'', ZSet [(''c1'', 5)]),
            (''cm:c1'', Hash [(''name'', ''DB Backup''), (''slug'', ''db-backup''),
                              (''periodicity'', ''3600''), (''paused'', ''0''),
                              (''late'', ''0'')])]\<rparr>"

definition record_c1 :: pydict where
  "record_c1 =
     [(''name'', PStr ''DB Backup''), (''slug'', PStr ''db-backup''),
      (''periodicity'', PInt 3600), (''paused'', PBool False), (''late'', PBool False),
      (''emails'', PList []), (''history'', PList []), (''deadline'', PDate 5),
      (''id'', PStr ''c1'')]"

text \<open>After \<^verbatim>\<open>update('c1', {'late': True})\<close>.\<close>

definition store_c1_late :: redis where
  "store_c1_late =
     \<lparr>namespace = ''cm'',
      db = [(''cm:slugs'', Hash [(''db-backup'', ''c1'')]),
            (''cm:ontime'', RSet [''c1'']),
            (''cm:active'', RSet [''c1'']),
            (''cm:deadlines'', ZSet [(''c1'', 5)]),
            (''cm:c1'', Hash [(''name'', ''DB Backup''), (''slug'', ''db-backup''),
                              (''periodicity'', ''3600''), (''paused'', ''0''),
                              (''late'', ''1'')]),
            (''cm:late'', RSet [''c1''])]\<rparr>"

text \<open>After \<^verbatim>\<open>update('c1', {'slug': 'backup'})\<close>, and after \<^verbatim>\<open>delete('c1')\<close> then.\<close>

definition store_c1_renamed :: redis where
  "store_c1_renamed =
     \<lparr>namespace = ''cm'',
      db = [(''cm:slugs'', Hash [(''db-backup'', ''c1''), (''backup'', ''c1'')]),
            (''cm:ontime'', RSet [''c1'']),
            (''cm:active'', RSet [''c1'']),
            (''cm:deadlines'', ZSet [(''c1'', 5)]),
            (''cm:c1'', Hash [(''name'', ''DB Backup''), (''slug'', ''backup''),
                              (''periodicity'', ''3600''), (''paused'', ''0''),
                              (''late'', ''0'')])]\<rparr>"

definition store_orphan :: redis where
  "store_orphan =
     \<lparr>namespace = ''cm'', db = [(''cm:slugs'', Hash [(''db-backup'', ''c1'')])]\<rparr>"

definition canary_c2 :: pydict where
  "canary_c2 =
     [(''id'', PStr ''c2''), (''name'', PStr ''Web''), (''slug'', PStr ''db-backup''),
      (''paused'', PBool True)]"


text \<open>A paused canary with a notification list, and the store after its emails are unset.\<close>

definition canary_c3 :: pydict where
  "canary_c3 =
     [(''id'', PStr ''c3''), (''name'', PStr ''Mail''), (''slug'', PStr ''mail''),
      (''paused'', PBool True), (''emails'', PList [PStr ''ops@example.com''])]"

definition store_c3 :: redis where
  "store_c3 =
     \<lparr>namespace = ''cm'',
      db = [(''cm:slugs'', Hash [(''mail'', ''c3'')]),
            (''cm:c3:emails'', RList [''ops@example.com'']),
            (''cm:paused'', RSet [''c3'']),
            (''cm:c3'', Hash [(''name'', ''Mail''), (''slug'', ''mail''),
                              (''paused'', ''1'')])]\<rparr>"

definition store_c3_unset :: redis where
  "store_c3_unset =
     \<lparr>namespace = ''cm'',
      db = [(''cm:slugs'', Hash [(''mail'', ''c3'')]),
            (''cm:c3:emails'', RList [''ops@example.com'']),
            (''cm:paused'', RSet [''c3''])]\<rparr>"

text \<open>A canary created without the keys \<^verbatim>\<open>paused\<close> and \<^verbatim>\<open>deadline\<close>.\<close>

definition canary_c4 :: pydict where
  "canary_c4 = [(''id'', PStr ''c4''), (''name'', PStr ''Cron''), (''slug'', PStr ''cron'')]"

definition store_c4 :: redis where
  "store_c4 =
     \<lparr>namespace = ''cm'',
      db = [(''cm:slugs'', Hash [(''cron'', ''c4'')]),
            (''cm:c4'', Hash [(''name'', ''Cron''), (''slug'', ''cron'')])]\<rparr>"

section \<open>Evaluation on the concrete stores\<close>

lemmas key_defs =
  key_def emails_k_def history_k_def store_key_def slugs_def active_def paused_def late_def
  ontime_def deadlines_def

lemmas command_defs =
  exists_k_def hgetall_def hget_def hmget_def hexists_def lrange_def smembers_def sunion_def
  zrange_def zscore_def on_hash_def on_list_def on_set_def on_zset_def put_def

lemmas save_defs =
  RedisStore_create_def RedisCanary_create_def RedisStore_update_def RedisCanary_save_def
  save_multi_def save_emails_def save_history_def save_late_def save_paused_def
  arg_def py_table_def key_defs command_defs

lemmas load_defs =
  RedisStore_list_def list_sets_def RedisCanary_load_brief_def RedisCanary_load_def
  load_record_def skipped_def field_def flag_def periodicity_def RedisStore_get_def
  RedisStore_upcoming_deadlines_def py_table_def key_defs command_defs

lemmas delete_defs =
  RedisStore_delete_def RedisCanary_delete_def field_def arg_def py_table_def key_defs
  command_defs

lemma create_c1: "RedisStore_create py_table empty_store canary_c1 = (store_c1, None)"
  by (simp add: save_defs canary_c1_def store_c1_def empty_store_def)

lemma get_c1: "RedisStore_get py_table store_c1 ''c1'' = Inr record_c1"
  by (simp add: load_defs store_c1_def record_c1_def)

lemma update_c1_late:
  "RedisStore_update py_table store_c1 ''c1'' [(''late'', PBool True)] = (store_c1_late, None)"
  by (simp add: save_defs store_c1_late_def store_c1_def)

lemma create_c4: "RedisStore_create py_table empty_store canary_c4 = (store_c4, None)"
  by (simp add: save_defs canary_c4_def store_c4_def empty_store_def)

section \<open>Filters of list\<close>

text \<open>
  C1. A \<^verbatim>\<open>paused\<close> or \<^verbatim>\<open>late\<close> filter restricts \<^verbatim>\<open>list\<close> to the matching class; on the
  key-value backend \<^verbatim>\<open>list(paused=True)\<close> yields only paused canaries and
  \<^verbatim>\<open>list(late=True)\<close> only late ones. The code does not: in the store that holds the one
  canary \<^verbatim>\<open>c1\<close>, which is neither paused nor late, both calls yield \<^verbatim>\<open>c1\<close>, because the
  set of the other classification is joined by union.
\<close>

theorem list_filter_yields_other_class:
  "RedisStore_create py_table empty_store canary_c1 = (store_c1, None)
   \<and> smembers (db store_c1) (paused store_c1) = Inr []
   \<and> smembers (db store_c1) (late store_c1) = Inr []
   \<and> RedisStore_list py_table store_c1 False (Some True) None None =
       ([[(''name'', PStr ''DB Backup''), (''id'', PStr ''c1'')]], None)
   \<and> RedisStore_list py_table store_c1 False None (Some True) None =
       ([[(''name'', PStr ''DB Backup''), (''id'', PStr ''c1'')]], None)"
  by (simp add: save_defs load_defs canary_c1_def store_c1_def empty_store_def)

text \<open>
  C2. Setting \<^verbatim>\<open>late\<close> keeps the late and on-time sets disjoint, and \<^verbatim>\<open>list(late=True)\<close>
  and \<^verbatim>\<open>list(late=False)\<close> partition the canaries that are not paused. The code does not:
  \<^verbatim>\<open>save\<close> adds \<^verbatim>\<open>c1\<close> to the late set and leaves it in the on-time set, and both calls
  of \<^verbatim>\<open>list\<close> yield it.
\<close>

theorem late_update_keeps_ontime_member:
  "RedisStore_update py_table store_c1 ''c1'' [(''late'', PBool True)] = (store_c1_late, None)
   \<and> smembers (db store_c1_late) (late store_c1_late) = Inr [''c1'']
   \<and> smembers (db store_c1_late) (ontime store_c1_late) = Inr [''c1'']
   \<and> RedisStore_list py_table store_c1_late False None (Some True) None =
       ([[(''name'', PStr ''DB Backup''), (''id'', PStr ''c1'')]], None)
   \<and> RedisStore_list py_table store_c1_late False None (Some False) None =
       ([[(''name'', PStr ''DB Backup''), (''id'', PStr ''c1'')]], None)"
  by (simp add: save_defs load_defs store_c1_late_def store_c1_def)

section \<open>Upcoming deadlines\<close>

text \<open>
  On the document backend \<^verbatim>\<open>upcoming_deadlines\<close> is the documents whose \<^verbatim>\<open>paused\<close> and
  \<^verbatim>\<open>late\<close> are both false, in ascending order of \<^verbatim>\<open>deadline\<close>.
\<close>

lemma MongoStore_upcoming_deadlines_sorted:
  "sorted (map (\<lambda>d. rank (map_of d ''deadline'')) (MongoStore_upcoming_deadlines rank coll))"
proof -
  have "map (projection True) ds = ds" for ds
    by (induction ds) (simp_all add: projection_def)
  then show ?thesis
    by (simp add: MongoStore_upcoming_deadlines_def MongoStore_list_def sorted_sort_key)
qed

lemma MongoStore_upcoming_deadlines_set:
  "set (MongoStore_upcoming_deadlines rank coll) =
     {d \<in> set coll. map_of d ''paused'' = Some (PBool False)
                    \<and> map_of d ''late'' = Some (PBool False)}"
  by (auto simp: MongoStore_upcoming_deadlines_def MongoStore_list_def projection_def
        selects_def)

text \<open>
  C3. \<^verbatim>\<open>upcoming_deadlines\<close> yields exactly the records that are neither paused nor late,
  on both backends. The key-value backend yields every member of \<^verbatim>\<open>deadlines\<close>: the late
  canary \<^verbatim>\<open>c1\<close> of \<open>store_c1_late\<close> is yielded, with \<^verbatim>\<open>late\<close> true in the record.
\<close>

theorem upcoming_deadlines_yields_late:
  "RedisStore_upcoming_deadlines py_table store_c1_late =
     ([[(''name'', PStr ''DB Backup''), (''slug'', PStr ''db-backup''),
        (''periodicity'', PInt 3600), (''paused'', PBool False), (''late'', PBool True),
        (''emails'', PList []), (''history'', PList []), (''deadline'', PDate 5),
        (''id'', PStr ''c1'')]], None)"
  by (simp add: load_defs store_c1_late_def)

section \<open>Deletion\<close>

text \<open>
  The document backend raises \<^verbatim>\<open>KeyError\<close> for an identifier no document has, and
  otherwise removes every document that has it.
\<close>

lemma MongoStore_delete_unbound:
  "\<forall>d \<in> set coll. \<not> has_id identifier d \<Longrightarrow> MongoStore_delete coll identifier = Inl KeyError"
  by (simp add: MongoStore_delete_def filter_empty_conv)

lemma MongoStore_delete_bound:
  assumes "d \<in> set coll" and "has_id identifier d"
  shows "\<exists>coll'. MongoStore_delete coll identifier = Inr coll'
           \<and> MongoStore_get coll' identifier = Inl KeyError"
proof -
  have "filter (has_id identifier) coll \<noteq> []"
    using assms by (auto simp: filter_empty_conv)
  moreover have "List.find (has_id identifier) (filter (\<lambda>d. \<not> has_id identifier d) coll) = None"
    by (simp add: find_None_iff)
  ultimately show ?thesis
    by (simp add: MongoStore_delete_def MongoStore_get_def)
qed

text \<open>
  On the key-value backend the last command of \<^verbatim>\<open>delete\<close> removes the key of the
  canary: once the slug has been read, the key does not exist afterwards and \<^verbatim>\<open>load\<close>
  raises \<^verbatim>\<open>KeyError\<close>.
\<close>

lemma execute_append:
  "execute (q @ [c]) d =
     (case execute q d of
        (d1, e1) \<Rightarrow>
          (case run c d1 of
             Inl e \<Rightarrow> (d1, (case e1 of None \<Rightarrow> Some e | Some e0 \<Rightarrow> Some e0))
           | Inr d2 \<Rightarrow> (d2, e1)))"
  by (induction q arbitrary: d) (auto split: sum.splits prod.splits option.splits)

lemma RedisCanary_delete_removes:
  assumes "RedisCanary_delete P st i = (st', e)"
    and "hget (db st) (key st i) ''slug'' = Inr slug"
  shows "\<not> exists_k (db st') (key st' i) \<and> RedisCanary_load P st' i = Inl KeyError"
proof -
  let ?q = "[SREM (active st) i, SREM (paused st) i, SREM (late st) i, SREM (ontime st) i,
             ZREM (deadlines st) i, HDEL (slugs st) (arg P (field slug)),
             DEL [history_k st i], DEL [emails_k st i]]"
  obtain d1 e1 where q: "execute ?q (db st) = (d1, e1)"
    by (cases "execute ?q (db st)")
  have "execute (?q @ [DEL [key st i]]) (db st) = (AList.delete (key st i) d1, e1)"
    unfolding execute_append q by simp
  then have "st' = st\<lparr>db := AList.delete (key st i) d1\<rparr>"
    using assms by (simp add: RedisCanary_delete_def)
  then show ?thesis
    by (simp add: exists_k_def key_def delete_conv' RedisCanary_load_def)
qed

text \<open>
  C4. \<^verbatim>\<open>delete\<close> of an identifier bound to no record fails with NotFound on both
  backends. On the key-value backend it does not: in the empty store the key of \<^verbatim>\<open>c1\<close>
  does not exist, and \<^verbatim>\<open>delete('c1')\<close> returns, leaving the store empty.
\<close>

theorem delete_unbound_returns:
  "\<not> exists_k (db empty_store) (key empty_store ''c1'')
   \<and> RedisStore_delete py_table empty_store ''c1'' = (empty_store, None)"
  by (simp add: delete_defs empty_store_def)

text \<open>
  C5. After \<^verbatim>\<open>delete\<close> no entry for the canary remains in any index, the slug binding
  included. The code leaves one when the canary was renamed: \<^verbatim>\<open>save\<close> binds the new slug
  and keeps the binding of the old one, and \<^verbatim>\<open>delete\<close> removes the binding of the current
  slug only. After create, rename and delete of \<^verbatim>\<open>c1\<close> the old slug still resolves to
  \<^verbatim>\<open>c1\<close>, and creating a canary with that slug fails.
\<close>

theorem delete_leaves_old_slug:
  "RedisStore_update py_table store_c1 ''c1'' [(''slug'', PStr ''backup'')]
     = (store_c1_renamed, None)
   \<and> RedisStore_delete py_table store_c1_renamed ''c1'' = (store_orphan, None)
   \<and> RedisStore_get py_table store_orphan ''c1'' = Inl KeyError
   \<and> RedisStore_find_identifier store_orphan ''db-backup'' = Inr ''c1''
   \<and> RedisStore_create py_table store_orphan canary_c2 = (store_orphan, Some Exception)"
  by (simp add: save_defs delete_defs load_defs store_c1_renamed_def store_c1_def
        store_orphan_def RedisStore_find_identifier_def canary_c2_def)

section \<open>Update\<close>




text \<open>
  C8. A field set to \<^verbatim>\<open>None\<close> is removed; for \<^verbatim>\<open>emails\<close> or \<^verbatim>\<open>history\<close> the list or the
  sorted set of the canary is cleared, and no other key of the canary is deleted. The code
  deletes the keys \<^verbatim>\<open>self.key\<close> and \<^verbatim>\<open>'emails'\<close> instead: after
  \<^verbatim>\<open>update('c3', {'emails': None})\<close> the emails of \<^verbatim>\<open>c3\<close> are still stored, its hash is
  gone and \<^verbatim>\<open>get('c3')\<close> raises \<^verbatim>\<open>KeyError\<close>.
\<close>

theorem unset_emails_deletes_hash:
  "RedisStore_create py_table empty_store canary_c3 = (store_c3, None)
   \<and> RedisStore_update py_table store_c3 ''c3'' [(''emails'', PNone)] = (store_c3_unset, None)
   \<and> lrange (db store_c3_unset) (emails_k store_c3_unset ''c3'') = Inr [''ops@example.com'']
   \<and> \<not> exists_k (db store_c3_unset) (key store_c3_unset ''c3'')
   \<and> RedisStore_get py_table store_c3_unset ''c3'' = Inl KeyError"
  by (simp add: save_defs load_defs canary_c3_def store_c3_def store_c3_unset_def
        empty_store_def)

section \<open>The brief projection\<close>







section \<open>Loading a record\<close>

text \<open>
  C9. \<^verbatim>\<open>load\<close> coerces a stored periodicity by trying the integer reading first, then
  the float reading, and keeps the text when both fail: the record it returns holds the
  result of the first reading that succeeds.
\<close>

theorem load_periodicity:
  assumes "RedisCanary_load P st i = Inr r"
    and "hget (db st) (key st i) ''periodicity'' = Inr (Some s)"
  shows "map_of r ''periodicity'' =
           Some (if py_int P s \<noteq> None then PInt (the (py_int P s))
                 else if py_float P s \<noteq> None then PFloat (the (py_float P s))
                 else PStr s)"
  using assms
  by (auto simp: RedisCanary_load_def load_record_def hget_def Let_def update_conv'
           periodicity_def
           split: if_splits sum.splits option.splits)

theorem load_periodicity_witness:
  "RedisCanary_load py_table store_c1 ''c1'' = Inr record_c1
   \<and> hget (db store_c1) (key store_c1 ''c1'') ''periodicity'' = Inr (Some ''3600'')
   \<and> map_of record_c1 ''periodicity'' = Some (PInt 3600)"
proof -
  have l: "RedisCanary_load py_table store_c1 ''c1'' = Inr record_c1"
    by (simp add: load_defs store_c1_def record_c1_def)
  have p: "hget (db store_c1) (key store_c1 ''c1'') ''periodicity'' = Inr (Some ''3600'')"
    by (simp add: store_c1_def key_defs command_defs)
  show ?thesis
    using l p load_periodicity [OF l p] by (simp add: py_table_def)
qed

text \<open>
  C10. \<^verbatim>\<open>get\<close> of an existing record that is not paused succeeds only if the canary has
  a score in \<^verbatim>\<open>deadlines\<close>: a record that \<^verbatim>\<open>load\<close> returns is paused or has one. When
  the hash exists, \<^verbatim>\<open>paused\<close> is absent or reads as 0, \<^verbatim>\<open>late\<close> is absent or reads as an
  integer, the server answers the reads of the emails and of the history, and it answers
  the read of the score with no score, then \<^verbatim>\<open>float(deadline)\<close> is applied to \<^verbatim>\<open>None\<close>
  and \<^verbatim>\<open>load\<close> raises \<^verbatim>\<open>TypeError\<close>.
\<close>

theorem load_needs_deadline:
  "(RedisCanary_load P st i = Inr r \<longrightarrow>
      map_of r ''paused'' = Some (PBool True)
      \<or> (\<exists>t. zscore (db st) (deadlines st) i = Inr (Some t)))
   \<and> (hgetall (db st) (key st i) = Inr h \<and> h \<noteq> []
        \<and> (map_of h ''paused'' = None
             \<or> (\<exists>s. map_of h ''paused'' = Some s \<and> py_int P s = Some 0))
        \<and> (map_of h ''late'' = None
             \<or> (\<exists>s. map_of h ''late'' = Some s \<and> py_int P s \<noteq> None))
        \<and> lrange (db st) (emails_k st i) = Inr em
        \<and> zrange (db st) (history_k st i) = Inr hs
        \<and> zscore (db st) (deadlines st) i = Inr None
      \<longrightarrow> RedisCanary_load P st i = Inl TypeError)"
proof (intro conjI impI)
  assume "RedisCanary_load P st i = Inr r"
  then show "map_of r ''paused'' = Some (PBool True)
      \<or> (\<exists>t. zscore (db st) (deadlines st) i = Inr (Some t))"
    by (auto simp: RedisCanary_load_def load_record_def Let_def update_conv'
             split: if_splits sum.splits option.splits)
next
  assume a: "hgetall (db st) (key st i) = Inr h \<and> h \<noteq> []
        \<and> (map_of h ''paused'' = None
             \<or> (\<exists>s. map_of h ''paused'' = Some s \<and> py_int P s = Some 0))
        \<and> (map_of h ''late'' = None
             \<or> (\<exists>s. map_of h ''late'' = Some s \<and> py_int P s \<noteq> None))
        \<and> lrange (db st) (emails_k st i) = Inr em
        \<and> zrange (db st) (history_k st i) = Inr hs
        \<and> zscore (db st) (deadlines st) i = Inr None"
  then have "exists_k (db st) (key st i)"
    by (auto simp: hgetall_def exists_k_def split: option.splits rval.splits)
  with a show "RedisCanary_load P st i = Inl TypeError"
    by (auto simp: RedisCanary_load_def load_record_def Let_def flag_def
             split: option.splits)
qed

theorem load_needs_deadline_witness:
  "RedisCanary_load py_table store_c1 ''c1'' = Inr record_c1
   \<and> zscore (db store_c1) (deadlines store_c1) ''c1'' = Inr (Some 5)
   \<and> RedisStore_create py_table empty_store canary_c4 = (store_c4, None)
   \<and> hgetall (db store_c4) (key store_c4 ''c4'') = Inr [(''name'', ''Cron''), (''slug'', ''cron'')]
   \<and> zscore (db store_c4) (deadlines store_c4) ''c4'' = Inr None
   \<and> RedisCanary_load py_table store_c4 ''c4'' = Inl TypeError"
proof -
  have l: "RedisCanary_load py_table store_c1 ''c1'' = Inr record_c1"
    by (simp add: load_defs store_c1_def record_c1_def)
  have c: "RedisStore_create py_table empty_store canary_c4 = (store_c4, None)"
    by (simp add: save_defs canary_c4_def store_c4_def empty_store_def)
  show ?thesis
    using l c
      load_needs_deadline [where P = py_table and st = store_c1 and i = "''c1''"
        and r = record_c1]
      load_needs_deadline [where P = py_table and st = store_c4 and i = "''c4''"
        and h = "[(''name'', ''Cron''), (''slug'', ''cron'')]" and em = "[]" and hs = "[]"]
    by (simp add: store_c1_def store_c4_def key_defs command_defs)
qed

end
